theory Spec2Isabelle
  imports Complex_Main
begin

unbundle bit_operations_syntax

section \<open>Python values that cross the boundary of operators.py\<close>

text \<open>
  The development embeds functions of \<^verbatim>\<open>rdflib/plugins/sparql/operators.py\<close>.
  Exceptions are values: every function that can raise returns \<open>pyexn + 'a\<close>,
  with \<open>Inl\<close> the exception.  A message is the format string of the
  \<^verbatim>\<open>raise\<close> statement (the formatted argument is not rendered); where the
  source's string runs over two lines, it is the sentence on the second line.
\<close>

datatype pyexn =
    SPARQLError string
  | SPARQLTypeError string
  | ValueError string
  | TypeError string
  | InvalidOperation
  | OverflowError
  | IndexError

text \<open>
  \<^verbatim>\<open>SPARQLTypeError\<close> is a \<^verbatim>\<open>SPARQLError\<close>: the handlers of this file catch the
  type errors that \<^verbatim>\<open>EBV\<close> raises with \<^verbatim>\<open>except SPARQLError\<close>.
\<close>

fun is_SPARQLError :: "pyexn \<Rightarrow> bool" where
  "is_SPARQLError (SPARQLError _) = True"
| "is_SPARQLError (SPARQLTypeError _) = True"
| "is_SPARQLError _ = False"

type_synonym iri = string

section \<open>Terms and the values of the term module\<close>

text \<open>
  The XSD namespace object is an open namespace: \<^verbatim>\<open>XSD.name\<close> is the IRI made of the
  namespace prefix and the attribute's name, so that \<^verbatim>\<open>XSD.Duration\<close> and
  \<^verbatim>\<open>XSD.duration\<close> are two IRIs.
\<close>

definition XSD :: "string \<Rightarrow> iri" where
  "XSD name = ''http://www.w3.org/2001/XMLSchema#'' @ name"

text \<open>
  A literal as this file reads it: its string content (a \<^verbatim>\<open>Literal\<close> is a
  \<^verbatim>\<open>str\<close>), \<^verbatim>\<open>.datatype\<close> and \<^verbatim>\<open>.language\<close>.
\<close>

record literal =
  lexical :: string
  datatype' :: "iri option"
  language :: "string option"

text \<open>A Python \<^verbatim>\<open>float\<close>: NaN, an infinity (\<open>True\<close> for the negative one) or a
  finite value, which is a rational number.  A \<^verbatim>\<open>decimal.Decimal\<close> likewise, with
  a quiet and a signalling NaN.\<close>

datatype pyfloat = FNaN | FInf bool | FFin rat

datatype pydecimal = DNaN | DsNaN | DInf bool | DFin rat

text \<open>
  The Python values that \<^verbatim>\<open>toPython()\<close> hands to this file.  \<open>PyLiteral\<close> is a
  \<^verbatim>\<open>Literal\<close> object (\<^verbatim>\<open>toPython()\<close> returns the literal itself when it has no
  Python value).  \<open>PyObject t\<close> is any other object (a \<^verbatim>\<open>datetime\<close>, a
  \<^verbatim>\<open>date\<close>, a duration), seen through its truth value \<open>t\<close>; it has none of the
  numeric operations that this file applies to the value of a numeric literal.
\<close>

datatype pyval =
    PyBool bool
  | PyInt int
  | PyFloat pyfloat
  | PyDecimal pydecimal
  | PyStr string
  | PyLiteral literal
  | PyObject bool

text \<open>
  An evaluated slot of an expression node: a term, an unbound variable, the error a
  sub-expression evaluated to, or \<^verbatim>\<open>None\<close>.
\<close>

datatype val =
    URIRef iri
  | BNode string
  | Lit literal
  | Variable string
  | ErrorVal pyexn
  | PyNone

text \<open>
  The methods of \<^verbatim>\<open>rdflib.term.Literal\<close> that this file calls and that are defined
  outside it are parameters: \<^verbatim>\<open>l.toPython()\<close>, \<^verbatim>\<open>bool(l)\<close>, and the constructor
  \<^verbatim>\<open>Literal(v, datatype=dt)\<close> applied to a Python value that is not a
  \<^verbatim>\<open>str\<close>, a \<^verbatim>\<open>bool\<close> or an \<^verbatim>\<open>int\<close>.
\<close>

record term_module =
  toPython :: "literal \<Rightarrow> pyval"
  nonzero :: "literal \<Rightarrow> bool"
  Literal_of :: "pyval \<Rightarrow> iri option \<Rightarrow> literal"

text \<open>Python's \<^verbatim>\<open>bool(v)\<close>.  A NaN is not zero, so it is true.\<close>

fun py_bool :: "term_module \<Rightarrow> pyval \<Rightarrow> bool" where
  "py_bool tm (PyBool b) = b"
| "py_bool tm (PyInt n) = (n \<noteq> 0)"
| "py_bool tm (PyFloat f) = (f \<noteq> FFin 0)"
| "py_bool tm (PyDecimal d) = (d \<noteq> DFin 0)"
| "py_bool tm (PyStr s) = (s \<noteq> [])"
| "py_bool tm (PyLiteral l) = nonzero tm l"
| "py_bool tm (PyObject t) = t"

text \<open>
  Modelled from the spec: the constructor of a boolean literal, \<^verbatim>\<open>Literal(True)\<close> and
  \<^verbatim>\<open>Literal(False)\<close> of the term model (rdflib.term, not under src/): a
  boolean-typed literal.
\<close>

definition Literal_bool :: "bool \<Rightarrow> literal" where
  "Literal_bool b =
     \<lparr>lexical = (if b then ''true'' else ''false''),
      datatype' = Some (XSD ''boolean''), language = None\<rparr>"

section \<open>Effective boolean value and the logical AND\<close>

definition EBV :: "term_module \<Rightarrow> val \<Rightarrow> pyexn + pyval" where
  "EBV tm rt =
     (case rt of
        Lit l \<Rightarrow>
          if datatype' l = Some (XSD ''boolean'') then Inr (toPython tm l)
          else if datatype' l = Some (XSD ''string'') \<or> datatype' l = None
          then Inr (PyBool (length (lexical l) > 0))
          else (case toPython tm l of
                  PyLiteral _ \<Rightarrow>
                    Inl (SPARQLTypeError ''Could not determine the EBV for : %r'')
                | pyRT \<Rightarrow> Inr (PyBool (py_bool tm pyRT)))
      | _ \<Rightarrow> Inl (SPARQLTypeError ''Only literals have Boolean values! %r''))"

text \<open>
  \<^verbatim>\<open>all(EBV(x) for x in xs)\<close>: the generator is consumed from the left; the first
  false value ends it with \<^verbatim>\<open>False\<close>, and an exception of \<^verbatim>\<open>EBV\<close> leaves
  \<^verbatim>\<open>all\<close> at once.
\<close>

fun all_EBV :: "term_module \<Rightarrow> val list \<Rightarrow> pyexn + bool" where
  "all_EBV tm [] = Inr True"
| "all_EBV tm (x # xs) =
     (case EBV tm x of
        Inl e \<Rightarrow> Inl e
      | Inr v \<Rightarrow> if py_bool tm v then all_EBV tm xs else Inr False)"

text \<open>\<^verbatim>\<open>ConditionalAndExpression(e, ctx)\<close>, with \<^verbatim>\<open>e.expr\<close> and \<^verbatim>\<open>e.other\<close>.\<close>

definition ConditionalAndExpression ::
  "term_module \<Rightarrow> val \<Rightarrow> val list option \<Rightarrow> pyexn + val" where
  "ConditionalAndExpression tm expr' other =
     (case other of
        None \<Rightarrow> Inr expr'
      | Some os \<Rightarrow>
          (case all_EBV tm (expr' # os) of
             Inl e \<Rightarrow> Inl e
           | Inr b \<Rightarrow> Inr (Lit (Literal_bool b))))"

section \<open>IN and NOT IN\<close>

text \<open>
  The right operand of \<^verbatim>\<open>IN\<close> as the grammar builds it: the IRI \<^verbatim>\<open>RDF.nil\<close>
  for the empty list \<^verbatim>\<open>()\<close>, or the list of the evaluated elements.
\<close>

datatype in_other = RDF_nil | ExpressionList "val list"

text \<open>
  The loop of the branch \<^verbatim>\<open>if op in ("IN", "NOT IN")\<close> of
  \<^verbatim>\<open>RelationalExpression\<close>.  \<open>eq x y\<close> is Python's \<^verbatim>\<open>x == y\<close> on evaluated
  values, the \<^verbatim>\<open>__eq__\<close> of the term module (a parameter).  \<open>error\<close> is the
  variable of that name: \<open>None\<close> for its initial \<^verbatim>\<open>False\<close>.  Only a
  \<^verbatim>\<open>SPARQLError\<close> is caught.  A list element that evaluated to an error is the
  error object itself, a value of the list.
\<close>

fun IN_loop ::
  "(val \<Rightarrow> val \<Rightarrow> pyexn + bool) \<Rightarrow> val \<Rightarrow> bool \<Rightarrow> val list \<Rightarrow> pyexn option \<Rightarrow> pyexn + val" where
  "IN_loop eq expr' res [] error =
     (case error of
        None \<Rightarrow> Inr (Lit (Literal_bool (False \<noteq> res)))
      | Some e \<Rightarrow> Inl e)"
| "IN_loop eq expr' res (x # xs) error =
     (case eq x expr' of
        Inr b \<Rightarrow>
          if b then Inr (Lit (Literal_bool (True \<noteq> res)))
          else IN_loop eq expr' res xs error
      | Inl e \<Rightarrow>
          if is_SPARQLError e then IN_loop eq expr' res xs (Some e) else Inl e)"

definition RelationalExpression_IN ::
  "(val \<Rightarrow> val \<Rightarrow> pyexn + bool) \<Rightarrow> val \<Rightarrow> string \<Rightarrow> in_other \<Rightarrow> pyexn + val" where
  "RelationalExpression_IN eq expr' op other =
     (let res = (op = ''NOT IN'');
          other' = (case other of RDF_nil \<Rightarrow> [] | ExpressionList xs \<Rightarrow> xs)
      in IN_loop eq expr' res other' None)"

section \<open>String functions\<close>

text \<open>Python's truth value of an optional string: \<^verbatim>\<open>None\<close> and \<^verbatim>\<open>""\<close> are false.\<close>

definition truthy :: "string option \<Rightarrow> bool" where
  "truthy s = (s \<noteq> None \<and> s \<noteq> Some [])"

definition string :: "val \<Rightarrow> pyexn + literal" where
  "string s =
     (case s of
        Lit l \<Rightarrow>
          if truthy (datatype' l) \<and> datatype' l \<noteq> Some (XSD ''string'')
          then Inl (SPARQLError ''Non-string datatype-literal passes as string: %r'')
          else Inr l
      | _ \<Rightarrow> Inl (SPARQLError ''Non-literal passes as string: %r''))"

text \<open>
  \<^verbatim>\<open>_compatibleStrings(a, b)\<close> returns nothing; here it returns the two literals that
  passed \<^verbatim>\<open>string\<close>, which the callers go on to use.
\<close>

definition compatibleStrings :: "val \<Rightarrow> val \<Rightarrow> pyexn + (literal \<times> literal)" where
  "compatibleStrings a b =
     (case string a of
        Inl e \<Rightarrow> Inl e
      | Inr la \<Rightarrow>
          (case string b of
             Inl e \<Rightarrow> Inl e
           | Inr lb \<Rightarrow>
               if truthy (language lb) \<and> language la \<noteq> language lb
               then Inl (SPARQLError ''incompatible arguments to str functions'')
               else Inr (la, lb)))"

text \<open>\<^verbatim>\<open>a.find(b)\<close>: the lowest index at which \<open>b\<close> starts in \<open>a\<close>, or -1.\<close>

fun find_str :: "string \<Rightarrow> string \<Rightarrow> int" where
  "find_str [] b = (if b = [] then 0 else - 1)"
| "find_str (c # cs) b =
     (if take (length b) (c # cs) = b then 0
      else (let r = find_str cs b in if r = - 1 then - 1 else r + 1))"

text \<open>
  Modelled from the spec: the constructor \<^verbatim>\<open>Literal(s, lang=..., datatype=...)\<close> of the
  term model (rdflib.term, not under src/) on a \<^verbatim>\<open>str\<close>: a literal is a lexical
  form with an optional datatype and an optional language, and has at most one of the
  two; the constructor refuses both.
\<close>

definition Literal_str :: "string \<Rightarrow> string option \<Rightarrow> iri option \<Rightarrow> pyexn + literal" where
  "Literal_str s lang dt =
     (if lang \<noteq> None \<and> dt \<noteq> None
      then Inl (TypeError ''A Literal can only have one of lang or datatype'')
      else Inr \<lparr>lexical = s, datatype' = dt, language = lang\<rparr>)"

definition Builtin_STRBEFORE :: "val \<Rightarrow> val \<Rightarrow> pyexn + literal" where
  "Builtin_STRBEFORE arg1 arg2 =
     (case compatibleStrings arg1 arg2 of
        Inl e \<Rightarrow> Inl e
      | Inr (a, b) \<Rightarrow>
          (let i = find_str (lexical a) (lexical b)
           in if i = - 1 then Literal_str [] None None
              else Literal_str (take (nat i) (lexical a)) (language a) (datatype' a)))"

definition Builtin_STRAFTER :: "val \<Rightarrow> val \<Rightarrow> pyexn + literal" where
  "Builtin_STRAFTER arg1 arg2 =
     (case compatibleStrings arg1 arg2 of
        Inl e \<Rightarrow> Inl e
      | Inr (a, b) \<Rightarrow>
          (let i = find_str (lexical a) (lexical b)
           in if i = - 1 then Literal_str [] None None
              else Literal_str (drop (nat (i + int (length (lexical b)))) (lexical a))
                     (language a) (datatype' a)))"

section \<open>Numeric functions\<close>

definition numeric_datatypes :: "iri list" where
  "numeric_datatypes =
     [XSD ''float'', XSD ''double'', XSD ''decimal'', XSD ''integer'',
      XSD ''nonPositiveInteger'', XSD ''negativeInteger'', XSD ''nonNegativeInteger'',
      XSD ''positiveInteger'', XSD ''unsignedLong'', XSD ''unsignedInt'',
      XSD ''unsignedShort'', XSD ''unsignedByte'', XSD ''long'', XSD ''int'',
      XSD ''short'', XSD ''byte'']"

definition numeric :: "term_module \<Rightarrow> val \<Rightarrow> pyexn + pyval" where
  "numeric tm expr' =
     (case expr' of
        Lit l \<Rightarrow>
          (case datatype' l of
             None \<Rightarrow> Inl (SPARQLTypeError ''%r does not have a numeric datatype!'')
           | Some dt \<Rightarrow>
               if dt \<notin> set numeric_datatypes
               then Inl (SPARQLTypeError ''%r does not have a numeric datatype!'')
               else Inr (toPython tm l))
      | _ \<Rightarrow> Inl (SPARQLTypeError ''%r is not a literal!''))"

text \<open>\<^verbatim>\<open>l_.datatype\<close>, read after \<^verbatim>\<open>numeric(l_)\<close> has checked that \<open>l_\<close> is a literal.\<close>

definition val_datatype :: "val \<Rightarrow> iri option" where
  "val_datatype v = (case v of Lit l \<Rightarrow> datatype' l | _ \<Rightarrow> None)"

text \<open>
  The operations of Python's \<^verbatim>\<open>decimal\<close> module that depend on the digits of a
  \<^verbatim>\<open>Decimal\<close> and not only on its value are parameters: the constructor on a string
  (\<open>None\<close> when the string is not a number, an \<^verbatim>\<open>InvalidOperation\<close>), and
  \<^verbatim>\<open>abs\<close>, which rounds to the precision of the context.
\<close>

record decimal_module =
  Decimal_str :: "string \<Rightarrow> pydecimal option"
  Decimal_abs :: "pydecimal \<Rightarrow> pyexn + pydecimal"

text \<open>\<^verbatim>\<open>Decimal(v)\<close>: exact on an \<^verbatim>\<open>int\<close> and on a \<^verbatim>\<open>float\<close>.\<close>

fun Decimal :: "decimal_module \<Rightarrow> pyval \<Rightarrow> pyexn + pydecimal" where
  "Decimal dm (PyBool b) = Inr (DFin (if b then 1 else 0))"
| "Decimal dm (PyInt n) = Inr (DFin (of_int n))"
| "Decimal dm (PyFloat FNaN) = Inr DNaN"
| "Decimal dm (PyFloat (FInf s)) = Inr (DInf s)"
| "Decimal dm (PyFloat (FFin q)) = Inr (DFin q)"
| "Decimal dm (PyDecimal d) = Inr d"
| "Decimal dm (PyStr s) =
     (case Decimal_str dm s of None \<Rightarrow> Inl InvalidOperation | Some d \<Rightarrow> Inr d)"
| "Decimal dm (PyLiteral l) =
     (case Decimal_str dm (lexical l) of None \<Rightarrow> Inl InvalidOperation | Some d \<Rightarrow> Inr d)"
| "Decimal dm (PyObject t) =
     Inl (TypeError ''conversion from %s to Decimal is not supported'')"

text \<open>Rounding to the nearest integer, a tie going away from zero.\<close>

definition round_half_up :: "rat \<Rightarrow> int" where
  "round_half_up q = (if 0 \<le> q then \<lfloor>q + 1 / 2\<rfloor> else - \<lfloor>- q + 1 / 2\<rfloor>)"

text \<open>
  \<^verbatim>\<open>d.quantize(1, ROUND_HALF_UP)\<close> in the default context, whose precision is 28
  digits: a quiet NaN stays a NaN; a signalling NaN, an infinity and a result of more
  than 28 digits are an \<^verbatim>\<open>InvalidOperation\<close>.
\<close>

fun quantize_1_ROUND_HALF_UP :: "pydecimal \<Rightarrow> pyexn + pydecimal" where
  "quantize_1_ROUND_HALF_UP DNaN = Inr DNaN"
| "quantize_1_ROUND_HALF_UP DsNaN = Inl InvalidOperation"
| "quantize_1_ROUND_HALF_UP (DInf s) = Inl InvalidOperation"
| "quantize_1_ROUND_HALF_UP (DFin q) =
     (if 10 ^ 28 \<le> \<bar>round_half_up q\<bar> then Inl InvalidOperation
      else Inr (DFin (of_int (round_half_up q))))"

text \<open>\<^verbatim>\<open>int(d)\<close> of a \<^verbatim>\<open>Decimal\<close> truncates towards zero.\<close>

fun int_of_Decimal :: "pydecimal \<Rightarrow> pyexn + int" where
  "int_of_Decimal DNaN = Inl (ValueError ''cannot convert NaN to integer'')"
| "int_of_Decimal DsNaN = Inl (ValueError ''cannot convert NaN to integer'')"
| "int_of_Decimal (DInf s) = Inl OverflowError"
| "int_of_Decimal (DFin q) = Inr (if 0 \<le> q then \<lfloor>q\<rfloor> else \<lceil>q\<rceil>)"

text \<open>\<^verbatim>\<open>math.ceil(v)\<close> and \<^verbatim>\<open>math.floor(v)\<close>.\<close>

fun math_ceil :: "pyval \<Rightarrow> pyexn + int" where
  "math_ceil (PyBool b) = Inr (if b then 1 else 0)"
| "math_ceil (PyInt n) = Inr n"
| "math_ceil (PyFloat FNaN) = Inl (ValueError ''cannot convert float NaN to integer'')"
| "math_ceil (PyFloat (FInf s)) = Inl OverflowError"
| "math_ceil (PyFloat (FFin q)) = Inr \<lceil>q\<rceil>"
| "math_ceil (PyDecimal DNaN) = Inl (ValueError ''cannot convert NaN to integer'')"
| "math_ceil (PyDecimal DsNaN) = Inl (ValueError ''cannot convert NaN to integer'')"
| "math_ceil (PyDecimal (DInf s)) = Inl OverflowError"
| "math_ceil (PyDecimal (DFin q)) = Inr \<lceil>q\<rceil>"
| "math_ceil _ = Inl (TypeError ''must be real number'')"

fun math_floor :: "pyval \<Rightarrow> pyexn + int" where
  "math_floor (PyBool b) = Inr (if b then 1 else 0)"
| "math_floor (PyInt n) = Inr n"
| "math_floor (PyFloat FNaN) = Inl (ValueError ''cannot convert float NaN to integer'')"
| "math_floor (PyFloat (FInf s)) = Inl OverflowError"
| "math_floor (PyFloat (FFin q)) = Inr \<lfloor>q\<rfloor>"
| "math_floor (PyDecimal DNaN) = Inl (ValueError ''cannot convert NaN to integer'')"
| "math_floor (PyDecimal DsNaN) = Inl (ValueError ''cannot convert NaN to integer'')"
| "math_floor (PyDecimal (DInf s)) = Inl OverflowError"
| "math_floor (PyDecimal (DFin q)) = Inr \<lfloor>q\<rfloor>"
| "math_floor _ = Inl (TypeError ''must be real number'')"

text \<open>\<^verbatim>\<open>abs(v)\<close>.\<close>

fun py_abs :: "decimal_module \<Rightarrow> pyval \<Rightarrow> pyexn + pyval" where
  "py_abs dm (PyBool b) = Inr (PyInt (if b then 1 else 0))"
| "py_abs dm (PyInt n) = Inr (PyInt \<bar>n\<bar>)"
| "py_abs dm (PyFloat FNaN) = Inr (PyFloat FNaN)"
| "py_abs dm (PyFloat (FInf s)) = Inr (PyFloat (FInf False))"
| "py_abs dm (PyFloat (FFin q)) = Inr (PyFloat (FFin \<bar>q\<bar>))"
| "py_abs dm (PyDecimal d) =
     (case Decimal_abs dm d of Inl e \<Rightarrow> Inl e | Inr a \<Rightarrow> Inr (PyDecimal a))"
| "py_abs dm _ = Inl (TypeError ''bad operand type for abs()'')"

text \<open>\<^verbatim>\<open>str(n)\<close> of an \<^verbatim>\<open>int\<close>: its decimal digits, after a minus sign if negative.\<close>

fun digits :: "nat \<Rightarrow> string" where
  "digits n =
     (if n < 10 then [''0123456789'' ! n]
      else digits (n div 10) @ [''0123456789'' ! (n mod 10)])"

declare digits.simps [simp del]

definition str_int :: "int \<Rightarrow> string" where
  "str_int n = (if n < 0 then CHR ''-'' # digits (nat (- n)) else digits (nat n))"

text \<open>
  Modelled from the spec: the constructor \<^verbatim>\<open>Literal(n, datatype=dt)\<close> of the term
  model (rdflib.term, not under src/) on an \<^verbatim>\<open>int\<close>: the lexical form is the
  integer's, the datatype is the one given, and an integer given no datatype is of the
  integer category.
\<close>

definition Literal_int :: "int \<Rightarrow> iri option \<Rightarrow> literal" where
  "Literal_int n dt =
     \<lparr>lexical = str_int n,
      datatype' = (case dt of None \<Rightarrow> Some (XSD ''integer'') | Some d \<Rightarrow> Some d),
      language = None\<rparr>"

definition Builtin_ABS :: "term_module \<Rightarrow> decimal_module \<Rightarrow> val \<Rightarrow> pyexn + literal" where
  "Builtin_ABS tm dm arg =
     (case numeric tm arg of
        Inl e \<Rightarrow> Inl e
      | Inr v \<Rightarrow>
          (case py_abs dm v of
             Inl e \<Rightarrow> Inl e
           | Inr a \<Rightarrow> Inr (Literal_of tm a None)))"

definition Builtin_CEIL :: "term_module \<Rightarrow> val \<Rightarrow> pyexn + literal" where
  "Builtin_CEIL tm arg =
     (case numeric tm arg of
        Inl e \<Rightarrow> Inl e
      | Inr v \<Rightarrow>
          (case math_ceil v of
             Inl e \<Rightarrow> Inl e
           | Inr n \<Rightarrow> Inr (Literal_int n (val_datatype arg))))"

definition Builtin_FLOOR :: "term_module \<Rightarrow> val \<Rightarrow> pyexn + literal" where
  "Builtin_FLOOR tm arg =
     (case numeric tm arg of
        Inl e \<Rightarrow> Inl e
      | Inr v \<Rightarrow>
          (case math_floor v of
             Inl e \<Rightarrow> Inl e
           | Inr n \<Rightarrow> Inr (Literal_int n (val_datatype arg))))"

definition Builtin_ROUND :: "term_module \<Rightarrow> decimal_module \<Rightarrow> val \<Rightarrow> pyexn + literal" where
  "Builtin_ROUND tm dm arg =
     (case numeric tm arg of
        Inl e \<Rightarrow> Inl e
      | Inr v \<Rightarrow>
          (case Decimal dm v of
             Inl e \<Rightarrow> Inl e
           | Inr d \<Rightarrow>
               (case quantize_1_ROUND_HALF_UP d of
                  Inl e \<Rightarrow> Inl e
                | Inr d' \<Rightarrow>
                    (case int_of_Decimal d' of
                       Inl e \<Rightarrow> Inl e
                     | Inr n \<Rightarrow> Inr (Literal_int n (val_datatype arg))))))"

text \<open>The number that a finite Python number is.\<close>

fun finite_value :: "pyval \<Rightarrow> rat option" where
  "finite_value (PyBool b) = Some (if b then 1 else 0)"
| "finite_value (PyInt n) = Some (of_int n)"
| "finite_value (PyFloat (FFin q)) = Some q"
| "finite_value (PyDecimal (DFin q)) = Some q"
| "finite_value _ = None"

text \<open>
  For evaluating the functions at one literal: a term module in which every literal has
  the Python value \<open>v\<close>, and a decimal module that reads no string.
\<close>

definition module_with_value :: "pyval \<Rightarrow> term_module" where
  "module_with_value v =
     \<lparr>toPython = (\<lambda>_. v), nonzero = (\<lambda>l. lexical l \<noteq> []),
      Literal_of = (\<lambda>_ dt. \<lparr>lexical = [], datatype' = dt, language = None\<rparr>)\<rparr>"

definition plain_decimal_module :: decimal_module where
  "plain_decimal_module = \<lparr>Decimal_str = (\<lambda>_. None), Decimal_abs = Inr\<rparr>"

section \<open>Date and time arithmetic\<close>

text \<open>
  The operands are the Python objects that \<^verbatim>\<open>toPython()\<close> gives for date, time and
  duration literals (\<^verbatim>\<open>datetime\<close> and \<^verbatim>\<open>isodate\<close> objects, of a type \<open>'o\<close>).
  What this file does with them is a parameter: \<^verbatim>\<open>str(obj)\<close>,
  \<^verbatim>\<open>obj1 + obj2\<close>, \<^verbatim>\<open>obj1 - obj2\<close> and the constructor
  \<^verbatim>\<open>Literal(ans, datatype=dt)\<close>.
\<close>

record 'o datetime_module =
  str_obj :: "'o \<Rightarrow> string"
  add_obj :: "'o \<Rightarrow> 'o \<Rightarrow> pyexn + 'o"
  sub_obj :: "'o \<Rightarrow> 'o \<Rightarrow> pyexn + 'o"
  Literal_obj :: "'o \<Rightarrow> iri option \<Rightarrow> literal"

text \<open>
  \<^verbatim>\<open>isCompatibleDateTimeDatatype\<close> returns \<^verbatim>\<open>True\<close>, \<^verbatim>\<open>False\<close> or, when no
  \<^verbatim>\<open>return\<close> is reached, \<^verbatim>\<open>None\<close> (\<open>Inr None\<close>).  Each of its three
  \<^verbatim>\<open>if\<close> statements is a step that returns (\<open>Some\<close>) or falls through
  (\<open>None\<close>).  \<^verbatim>\<open>str(obj2)[1]\<close> raises \<^verbatim>\<open>IndexError\<close> on a string of fewer than
  two characters.
\<close>

definition compatible_date :: "string \<Rightarrow> iri option \<Rightarrow> iri option \<Rightarrow> (pyexn + bool option) option" where
  "compatible_date s2 dt1 dt2 =
     (if dt1 = Some (XSD ''date'') then
        (if dt2 = Some (XSD ''yearMonthDuration'') then Some (Inr (Some True))
         else if dt2 = Some (XSD ''dayTimeDuration'') \<or> dt2 = Some (XSD ''Duration'') then
           (if CHR ''T'' \<in> set s2 then Some (Inr (Some False)) else Some (Inr (Some True)))
         else None)
      else None)"

definition compatible_time :: "string \<Rightarrow> iri option \<Rightarrow> iri option \<Rightarrow> (pyexn + bool option) option" where
  "compatible_time s2 dt1 dt2 =
     (if dt1 = Some (XSD ''time'') then
        (if dt2 = Some (XSD ''yearMonthDuration'') then Some (Inr (Some False))
         else if dt2 = Some (XSD ''dayTimeDuration'') \<or> dt2 = Some (XSD ''Duration'') then
           (case s2 of
              _ # c # _ \<Rightarrow>
                if CHR ''T'' = c then Some (Inr (Some True)) else Some (Inr (Some False))
            | _ \<Rightarrow> Some (Inl IndexError))
         else None)
      else None)"

definition isCompatibleDateTimeDatatype ::
  "'o datetime_module \<Rightarrow> 'o \<Rightarrow> iri option \<Rightarrow> 'o \<Rightarrow> iri option \<Rightarrow> pyexn + bool option" where
  "isCompatibleDateTimeDatatype dm obj1 dt1 obj2 dt2 =
     (case compatible_date (str_obj dm obj2) dt1 dt2 of
        Some r \<Rightarrow> r
      | None \<Rightarrow>
          (case compatible_time (str_obj dm obj2) dt1 dt2 of
             Some r \<Rightarrow> r
           | None \<Rightarrow>
               if dt1 = Some (XSD ''dateTime'') then Inr (Some True) else Inr None))"

definition calculateFinalDateTime ::
  "'o datetime_module \<Rightarrow> 'o \<Rightarrow> iri option \<Rightarrow> 'o \<Rightarrow> iri option \<Rightarrow> string \<Rightarrow> pyexn + literal" where
  "calculateFinalDateTime dm obj1 dt1 obj2 dt2 operation =
     (case isCompatibleDateTimeDatatype dm obj1 dt1 obj2 dt2 of
        Inl e \<Rightarrow> Inl e
      | Inr c \<Rightarrow>
          if c = Some True then
            (if operation = ''-'' then
               (case sub_obj dm obj1 obj2 of
                  Inl e \<Rightarrow> Inl e
                | Inr ans \<Rightarrow> Inr (Literal_obj dm ans dt1))
             else
               (case add_obj dm obj1 obj2 of
                  Inl e \<Rightarrow> Inl e
                | Inr ans \<Rightarrow> Inr (Literal_obj dm ans dt1)))
          else Inl (SPARQLError ''Incompatible Data types to DateTime Operations''))"

section \<open>REPLACE\<close>

text \<open>
  Python's \<^verbatim>\<open>re.sub(pattern, repl, string, count=0, flags=0)\<close> is a parameter, with
  its five arguments in this order.  The flags of \<^verbatim>\<open>re\<close> are the integers
  \<^verbatim>\<open>re.IGNORECASE = 2\<close>, \<^verbatim>\<open>re.MULTILINE = 8\<close> and \<^verbatim>\<open>re.DOTALL = 16\<close>.
\<close>

type_synonym re_sub = "string \<Rightarrow> string \<Rightarrow> string \<Rightarrow> int \<Rightarrow> int \<Rightarrow> pyexn + string"

definition flagMap_get :: "char \<Rightarrow> int" where
  "flagMap_get f =
     (if f = CHR ''i'' then 2 else if f = CHR ''s'' then 16 else if f = CHR ''m'' then 8 else 0)"

text \<open>\<^verbatim>\<open>reduce(pyop.or_, xs)\<close>, which raises on an empty list.\<close>

definition reduce_or :: "int list \<Rightarrow> pyexn + int" where
  "reduce_or xs =
     (case xs of
        [] \<Rightarrow> Inl (TypeError ''reduce() of empty iterable with no initial value'')
      | y # ys \<Rightarrow> Inr (foldl (OR) y ys))"

text \<open>
  The truth value of an evaluated slot and its characters when it is iterated: the
  terms are strings, an error object is true and cannot be iterated.
\<close>

fun val_truth :: "term_module \<Rightarrow> val \<Rightarrow> bool" where
  "val_truth tm (URIRef s) = (s \<noteq> [])"
| "val_truth tm (BNode s) = (s \<noteq> [])"
| "val_truth tm (Lit l) = nonzero tm l"
| "val_truth tm (Variable s) = (s \<noteq> [])"
| "val_truth tm (ErrorVal e) = True"
| "val_truth tm PyNone = False"

fun val_chars :: "val \<Rightarrow> pyexn + string" where
  "val_chars (URIRef s) = Inr s"
| "val_chars (BNode s) = Inr s"
| "val_chars (Lit l) = Inr (lexical l)"
| "val_chars (Variable s) = Inr s"
| "val_chars _ = Inl (TypeError ''object is not iterable'')"

definition cFlag_of :: "term_module \<Rightarrow> val \<Rightarrow> pyexn + int" where
  "cFlag_of tm flags =
     (if val_truth tm flags then
        (case val_chars flags of
           Inl e \<Rightarrow> Inl e
         | Inr fs \<Rightarrow> reduce_or (map flagMap_get fs))
      else Inr 0)"

text \<open>The two constant strings of the first \<^verbatim>\<open>re.sub\<close>: the pattern
  \<^verbatim>\<open>\$([0-9]*)\<close> and the template \<^verbatim>\<open>\\\1\<close> (character 0x5C is the backslash).\<close>

definition dollar_pattern :: string where
  "dollar_pattern = CHR 0x5C # ''$([0-9]*)''"

definition backslash_template :: string where
  "backslash_template = [CHR 0x5C, CHR 0x5C, CHR 0x5C, CHR ''1'']"

text \<open>
  \<^verbatim>\<open>Builtin_REPLACE\<close> on Python 3.5 or later, where \<^verbatim>\<open>compat_r\<close> is the
  replacement string.  The slots are \<^verbatim>\<open>expr.arg\<close>, \<^verbatim>\<open>expr.pattern\<close>,
  \<^verbatim>\<open>expr.replacement\<close> and \<^verbatim>\<open>expr.flags\<close> (\<^verbatim>\<open>None\<close> when absent).  The last
  call is \<^verbatim>\<open>re.sub(str(pattern), compat_r, text, cFlag)\<close>: \<open>cFlag\<close> is the fourth
  positional argument.
\<close>

definition Builtin_REPLACE ::
  "term_module \<Rightarrow> re_sub \<Rightarrow> val \<Rightarrow> val \<Rightarrow> val \<Rightarrow> val \<Rightarrow> pyexn + literal" where
  "Builtin_REPLACE tm re_sub arg pattern replacement flags =
     (case string arg of
        Inl e \<Rightarrow> Inl e
      | Inr text \<Rightarrow>
     (case string pattern of
        Inl e \<Rightarrow> Inl e
      | Inr pattern' \<Rightarrow>
     (case string replacement of
        Inl e \<Rightarrow> Inl e
      | Inr replacement' \<Rightarrow>
     (case re_sub dollar_pattern backslash_template (lexical replacement') 0 0 of
        Inl e \<Rightarrow> Inl e
      | Inr compat_r \<Rightarrow>
     (case cFlag_of tm flags of
        Inl e \<Rightarrow> Inl e
      | Inr cFlag \<Rightarrow>
     (case re_sub (lexical pattern') compat_r (lexical text) cFlag 0 of
        Inl e \<Rightarrow> Inl e
      | Inr r \<Rightarrow> Literal_str r (language text) (datatype' text)))))))"

section \<open>The expression tree simplifier\<close>

text \<open>
  What \<^verbatim>\<open>simplify\<close> tells apart: a pyparsing \<^verbatim>\<open>ParseResults\<close>, a Python list, a
  \<^verbatim>\<open>CompValue\<close> (a name and an ordered dict of slots), and anything else (a term,
  \<^verbatim>\<open>None\<close>).  The function updates the slots of a \<^verbatim>\<open>CompValue\<close> in place and
  returns it; expression trees share no node, so the model returns the updated tree.
\<close>

datatype tree =
    ParseResults "tree list"
  | PyList "tree list"
  | CompValue string "(string \<times> tree) list"
  | Atom val

text \<open>\<^verbatim>\<open>s.endswith(suf)\<close>.\<close>

definition endswith :: "string \<Rightarrow> string \<Rightarrow> bool" where
  "endswith s suf = (length suf \<le> length s \<and> drop (length s - length suf) s = suf)"

text \<open>\<^verbatim>\<open>expr.k\<close> on a \<^verbatim>\<open>CompValue\<close>: the slot, or \<^verbatim>\<open>None\<close> when there is none.\<close>

definition getattr :: "(string \<times> tree) list \<Rightarrow> string \<Rightarrow> tree" where
  "getattr kvs k = (case map_of kvs k of None \<Rightarrow> Atom PyNone | Some v \<Rightarrow> v)"

lemma size_mem: "x \<in> set xs \<Longrightarrow> size (x::tree) \<le> size_list size xs"
  by (induction xs) auto

lemma size_snd_mem:
  "(a, b) \<in> set kvs \<Longrightarrow> size (b::tree) \<le> size_list (size_prod (\<lambda>_. 0) size) kvs"
  by (induction kvs) auto

lemma size_getattr: "size (getattr kvs k) \<le> size_list (size_prod (\<lambda>_. 0) size) kvs"
proof (cases "map_of kvs k")
  case None
  then show ?thesis by (simp add: getattr_def)
next
  case (Some v)
  then have "(k, v) \<in> set kvs" by (rule map_of_SomeD)
  from size_snd_mem[OF this] Some show ?thesis by (simp add: getattr_def)
qed

function (sequential) simplify :: "tree \<Rightarrow> tree" where
  "simplify (ParseResults [x]) = simplify x"
| "simplify (ParseResults xs) = PyList (map simplify xs)"
| "simplify (PyList xs) = PyList (map simplify xs)"
| "simplify (Atom a) = Atom a"
| "simplify (CompValue name kvs) =
     (if endswith name ''Expression'' \<and> getattr kvs ''other'' = Atom PyNone
      then simplify (getattr kvs ''expr'')
      else CompValue name (map (\<lambda>(k, v). (k, simplify v)) kvs))"
  by pat_completeness auto
termination
  by (relation "measure size")
     (auto simp: less_Suc_eq_le size_getattr dest!: size_mem size_snd_mem)

text \<open>
  An expression tree of the data model: every slot and every element of a sequence
  holds a value, a term, a nested node or a sequence of nodes, never \<^verbatim>\<open>None\<close> (a
  slot that is absent is a missing key); and a chain node, whose name ends in
  \<^verbatim>\<open>Expression\<close>, has its \<^verbatim>\<open>expr\<close> slot, the left operand.
\<close>

fun expression_tree :: "tree \<Rightarrow> bool" where
  "expression_tree (ParseResults xs) = list_all expression_tree xs"
| "expression_tree (PyList xs) = list_all expression_tree xs"
| "expression_tree (Atom a) = (a \<noteq> PyNone)"
| "expression_tree (CompValue name kvs) =
     ((endswith name ''Expression'' \<longrightarrow> map_of kvs ''expr'' \<noteq> None)
      \<and> list_all (\<lambda>(k, v). expression_tree v) kvs)"

section \<open>The custom function registry\<close>

text \<open>
  \<^verbatim>\<open>_CUSTOM_FUNCTIONS\<close> is a module-level dict from a function IRI to the pair
  \<^verbatim>\<open>(func, raw)\<close>.  It is threaded through as an explicit state.  A registered
  function is a Python callable: it is applied to a list of positional arguments, which
  are the node and the context (\<^verbatim>\<open>func(e, ctx)\<close>) or the evaluated argument terms
  (\<^verbatim>\<open>func(*e.expr)\<close>).
\<close>

record 'v function_node =
  iri :: iri
  expr :: "'v list option"

datatype ('v, 'c) pyobj =
    ObjNode "'v function_node"
  | ObjCtx 'c
  | ObjVal 'v

type_synonym ('v, 'c) callable = "('v, 'c) pyobj list \<Rightarrow> pyexn + 'v"

type_synonym ('v, 'c) registry = "iri \<rightharpoonup> (('v, 'c) callable \<times> bool)"


definition unregister_custom_function ::
  "('v, 'c) registry \<Rightarrow> iri \<Rightarrow> ('v, 'c) callable \<Rightarrow> pyexn + ('v, 'c) registry" where
  "unregister_custom_function CF uri func =
     (if map_option fst (CF uri) \<noteq> Some func
      then Inl (ValueError ''This function is not registered as %s'')
      else Inr (CF(uri := None)))"



section \<open>Theorems\<close>

subsection \<open>C9: registration and dispatch\<close>



subsection \<open>C1: the effective boolean value of NaN\<close>

text \<open>
  C1.  The claim (and the docstring of \<^verbatim>\<open>EBV\<close>) makes the effective boolean value of
  a numeric literal false when its value is NaN.  The code returns
  \<^verbatim>\<open>bool(rt.toPython())\<close>, and a NaN is true: for the literal
  \<^verbatim>\<open>"NaN"^^xsd:double\<close>, whose Python value is the float NaN, \<^verbatim>\<open>EBV\<close> returns
  \<^verbatim>\<open>True\<close>.
\<close>

theorem EBV_NaN_is_True:
  "EBV (tm\<lparr>toPython := \<lambda>_. PyFloat FNaN\<rparr>)
     (Lit \<lparr>lexical = ''NaN'', datatype' = Some (XSD ''double''), language = None\<rparr>)
   = Inr (PyBool True)"
  by (simp add: EBV_def XSD_def)

subsection \<open>C3: an error before a false operand of AND\<close>

text \<open>
  C3.  The claim makes \<^verbatim>\<open>AND\<close> false as soon as one operand is false, even if
  another operand is an error.  The code evaluates \<^verbatim>\<open>all(EBV(x) for x in ...)\<close>, so
  the type error of an operand that comes before the false one leaves the function:
  an IRI followed by the literal false raises.
\<close>

theorem AND_error_before_false_raises:
  "ConditionalAndExpression tm (URIRef ''http://example.org/a'') (Some [Lit (Literal_bool False)])
   = Inl (SPARQLTypeError ''Only literals have Boolean values! %r'')"
  by (simp add: ConditionalAndExpression_def EBV_def)

subsection \<open>C2: an errored element of IN\<close>

lemma IN_loop_boolean:
  "IN_loop (\<lambda>x y. Inr (f x y)) expr' res xs error =
     (if list_ex (\<lambda>x. f x expr') xs then Inr (Lit (Literal_bool (\<not> res)))
      else (case error of None \<Rightarrow> Inr (Lit (Literal_bool res)) | Some e \<Rightarrow> Inl e))"
  by (induction xs) (auto split: option.splits)

text \<open>
  C2.  The claim makes \<^verbatim>\<open>IN\<close> raise the error of an element when no element
  matches, as in the spec's \<^verbatim>\<open>5 IN (errorExpr, 6)\<close>.  In the code the element that
  evaluated to an error is an error object in the list, and the loop compares it with
  \<^verbatim>\<open>x == expr\<close>.  Whenever the comparison returns a boolean for every element, as
  Python's \<^verbatim>\<open>==\<close> does (an error object equals no term), the
  \<^verbatim>\<open>except SPARQLError\<close> branch is never reached: \<^verbatim>\<open>IN\<close> returns whether some
  element compares equal and \<^verbatim>\<open>NOT IN\<close> the complement, and neither raises.  So
  \<^verbatim>\<open>5 IN (errorExpr, 6)\<close> returns false, whatever the error is.
\<close>

theorem IN_never_reaches_except:
  "RelationalExpression_IN (\<lambda>x y. Inr (f x y)) expr' ''IN'' (ExpressionList xs)
     = Inr (Lit (Literal_bool (list_ex (\<lambda>x. f x expr') xs)))
   \<and> RelationalExpression_IN (\<lambda>x y. Inr (f x y)) expr' ''NOT IN'' (ExpressionList xs)
     = Inr (Lit (Literal_bool (\<not> list_ex (\<lambda>x. f x expr') xs)))
   \<and> RelationalExpression_IN (\<lambda>x y. Inr (x = y))
       (Lit \<lparr>lexical = ''5'', datatype' = Some (XSD ''integer''), language = None\<rparr>) ''IN''
       (ExpressionList
          [ErrorVal e,
           Lit \<lparr>lexical = ''6'', datatype' = Some (XSD ''integer''), language = None\<rparr>])
     = Inr (Lit (Literal_bool False))"
  by (simp add: RelationalExpression_IN_def IN_loop_boolean)

subsection \<open>C10: STRBEFORE and STRAFTER\<close>

lemma find_str_ge: "find_str a b \<ge> - 1"
  by (induction a) (auto simp: Let_def)

lemma find_str_le: "find_str a b \<le> int (length a)"
  by (induction a) (auto simp: Let_def)

lemma find_str_split:
  "find_str a b \<noteq> - 1 \<Longrightarrow>
     a = take (nat (find_str a b)) a @ b @ drop (nat (find_str a b + int (length b))) a"
proof (induction a)
  case Nil
  then show ?case by (simp split: if_splits)
next
  case (Cons c cs)
  show ?case
  proof (cases "take (length b) (c # cs) = b")
    case True
    then have "find_str (c # cs) b = 0" by simp
    moreover have "c # cs = b @ drop (length b) (c # cs)"
      using True by (metis append_take_drop_id)
    ultimately show ?thesis by simp
  next
    case False
    with Cons.prems have ne: "find_str cs b \<noteq> - 1" by (simp add: Let_def split: if_splits)
    with False have f: "find_str (c # cs) b = find_str cs b + 1" by (simp add: Let_def)
    have ge: "find_str cs b \<ge> 0" using find_str_ge[of cs b] ne by linarith
    have "nat (find_str cs b + 1) = Suc (nat (find_str cs b))" using ge by simp
    moreover have "nat (find_str cs b + 1 + int (length b)) = Suc (nat (find_str cs b + int (length b)))"
      using ge by simp
    ultimately show ?thesis using Cons.IH[OF ne] f by simp
  qed
qed

lemma find_str_none:
  "find_str a b = - 1 \<Longrightarrow> \<not> (\<exists>pre suf. a = pre @ b @ suf)"
proof (induction a)
  case Nil
  then show ?case by (simp split: if_splits)
next
  case (Cons c cs)
  from Cons.prems find_str_ge[of cs b]
  have nt: "take (length b) (c # cs) \<noteq> b" and r: "find_str cs b = - 1"
    by (auto simp: Let_def split: if_splits)
  show ?case
  proof
    assume "\<exists>pre suf. c # cs = pre @ b @ suf"
    then obtain pre suf where e: "c # cs = pre @ b @ suf" by blast
    show False
    proof (cases pre)
      case Nil
      with e have "take (length b) (c # cs) = b" by simp
      with nt show False by simp
    next
      case (Cons p ps)
      with e have "cs = ps @ b @ suf" by simp
      with Cons.IH[OF r] show False by blast
    qed
  qed
qed

lemma find_str_prefix: "find_str (b @ suf) b = 0"
proof (cases "b @ suf")
  case Nil
  then show ?thesis by simp
next
  case (Cons c cs)
  have "take (length b) (b @ suf) = b" by simp
  with Cons show ?thesis by simp
qed

lemma find_str_first:
  "a = pre @ b @ suf \<Longrightarrow> find_str a b \<noteq> - 1 \<and> find_str a b \<le> int (length pre)"
proof (induction pre arbitrary: a)
  case Nil
  then show ?case by (simp add: find_str_prefix)
next
  case (Cons p ps)
  then obtain cs where a: "a = p # cs" and cs: "cs = ps @ b @ suf" by simp
  from Cons.IH[OF cs] have "find_str cs b \<noteq> - 1" "find_str cs b \<le> int (length ps)" by auto
  then show ?case using a find_str_ge[of cs b] by (auto simp: Let_def)
qed

text \<open>
  C10.  For string-compatible arguments \<open>a\<close> and \<open>b\<close> (\<open>a\<close> a literal of the term
  model, with at most one of language and datatype): when \<open>b\<close> does not occur in
  \<open>a\<close>, both functions return the literal \<^verbatim>\<open>""\<close> with no language and no
  datatype; when it occurs, both results carry the language and the datatype of \<open>a\<close>,
  and they are the parts of \<open>a\<close> before and after the first occurrence of \<open>b\<close>.
\<close>

theorem STRBEFORE_STRAFTER:
  assumes c: "compatibleStrings arg1 arg2 = Inr (a, b)"
      and wf: "language a = None \<or> datatype' a = None"
  shows "(\<not> (\<exists>pre suf. lexical a = pre @ lexical b @ suf) \<longrightarrow>
            Builtin_STRBEFORE arg1 arg2 = Inr \<lparr>lexical = [], datatype' = None, language = None\<rparr>
          \<and> Builtin_STRAFTER arg1 arg2 = Inr \<lparr>lexical = [], datatype' = None, language = None\<rparr>)
       \<and> ((\<exists>pre suf. lexical a = pre @ lexical b @ suf) \<longrightarrow>
            (\<exists>before after.
               Builtin_STRBEFORE arg1 arg2
                 = Inr \<lparr>lexical = before, datatype' = datatype' a, language = language a\<rparr>
             \<and> Builtin_STRAFTER arg1 arg2
                 = Inr \<lparr>lexical = after, datatype' = datatype' a, language = language a\<rparr>
             \<and> lexical a = before @ lexical b @ after
             \<and> (\<forall>pre suf. lexical a = pre @ lexical b @ suf \<longrightarrow> length before \<le> length pre)))"
proof (intro conjI impI)
  assume n: "\<not> (\<exists>pre suf. lexical a = pre @ lexical b @ suf)"
  have "find_str (lexical a) (lexical b) = - 1"
  proof (rule ccontr)
    assume "find_str (lexical a) (lexical b) \<noteq> - 1"
    from find_str_split[OF this] n show False by blast
  qed
  then show "Builtin_STRBEFORE arg1 arg2 = Inr \<lparr>lexical = [], datatype' = None, language = None\<rparr>"
    and "Builtin_STRAFTER arg1 arg2 = Inr \<lparr>lexical = [], datatype' = None, language = None\<rparr>"
    using c by (simp_all add: Builtin_STRBEFORE_def Builtin_STRAFTER_def Literal_str_def)
next
  assume "\<exists>pre suf. lexical a = pre @ lexical b @ suf"
  then obtain pre0 suf0 where o: "lexical a = pre0 @ lexical b @ suf0" by blast
  let ?i = "find_str (lexical a) (lexical b)"
  let ?before = "take (nat ?i) (lexical a)"
  let ?after = "drop (nat (?i + int (length (lexical b)))) (lexical a)"
  from find_str_first[OF o] have ne: "?i \<noteq> - 1" by simp
  with find_str_ge[of "lexical a" "lexical b"] have ge: "0 \<le> ?i" by linarith
  have B: "Builtin_STRBEFORE arg1 arg2
             = Inr \<lparr>lexical = ?before, datatype' = datatype' a, language = language a\<rparr>"
    using c ne wf by (auto simp: Builtin_STRBEFORE_def Literal_str_def)
  have A: "Builtin_STRAFTER arg1 arg2
             = Inr \<lparr>lexical = ?after, datatype' = datatype' a, language = language a\<rparr>"
    using c ne wf by (auto simp: Builtin_STRAFTER_def Literal_str_def)
  have S: "lexical a = ?before @ lexical b @ ?after"
    using find_str_split[OF ne] .
  have M: "\<forall>pre suf. lexical a = pre @ lexical b @ suf \<longrightarrow> length ?before \<le> length pre"
  proof (intro allI impI)
    fix pre suf assume "lexical a = pre @ lexical b @ suf"
    from find_str_first[OF this] have "?i \<le> int (length pre)" by simp
    then show "length ?before \<le> length pre" using ge by simp
  qed
  from B A S M show "\<exists>before after.
               Builtin_STRBEFORE arg1 arg2
                 = Inr \<lparr>lexical = before, datatype' = datatype' a, language = language a\<rparr>
             \<and> Builtin_STRAFTER arg1 arg2
                 = Inr \<lparr>lexical = after, datatype' = datatype' a, language = language a\<rparr>
             \<and> lexical a = before @ lexical b @ after
             \<and> (\<forall>pre suf. lexical a = pre @ lexical b @ suf \<longrightarrow> length before \<le> length pre)"
    by blast
qed

text \<open>
  The theorem at \<^verbatim>\<open>"abc"@en\<close> with \<^verbatim>\<open>"b"\<close>, which occurs, and with \<^verbatim>\<open>"z"\<close>,
  which does not.
\<close>

theorem STRBEFORE_STRAFTER_witness:
  "compatibleStrings (Lit \<lparr>lexical = ''abc'', datatype' = None, language = Some ''en''\<rparr>)
       (Lit \<lparr>lexical = ''b'', datatype' = None, language = None\<rparr>)
     = Inr (\<lparr>lexical = ''abc'', datatype' = None, language = Some ''en''\<rparr>,
            \<lparr>lexical = ''b'', datatype' = None, language = None\<rparr>)
   \<and> (\<exists>before after.
         Builtin_STRBEFORE (Lit \<lparr>lexical = ''abc'', datatype' = None, language = Some ''en''\<rparr>)
             (Lit \<lparr>lexical = ''b'', datatype' = None, language = None\<rparr>)
           = Inr \<lparr>lexical = before, datatype' = None, language = Some ''en''\<rparr>
       \<and> Builtin_STRAFTER (Lit \<lparr>lexical = ''abc'', datatype' = None, language = Some ''en''\<rparr>)
             (Lit \<lparr>lexical = ''b'', datatype' = None, language = None\<rparr>)
           = Inr \<lparr>lexical = after, datatype' = None, language = Some ''en''\<rparr>
       \<and> ''abc'' = before @ ''b'' @ after)
   \<and> Builtin_STRBEFORE (Lit \<lparr>lexical = ''abc'', datatype' = None, language = Some ''en''\<rparr>)
         (Lit \<lparr>lexical = ''z'', datatype' = None, language = None\<rparr>)
       = Inr \<lparr>lexical = [], datatype' = None, language = None\<rparr>"
proof -
  let ?a = "\<lparr>lexical = ''abc'', datatype' = None, language = Some ''en''\<rparr>"
  let ?b = "\<lparr>lexical = ''b'', datatype' = None, language = None\<rparr>"
  let ?z = "\<lparr>lexical = ''z'', datatype' = None, language = None\<rparr>"
  have cb: "compatibleStrings (Lit ?a) (Lit ?b) = Inr (?a, ?b)"
    by (simp add: compatibleStrings_def string_def truthy_def)
  have cz: "compatibleStrings (Lit ?a) (Lit ?z) = Inr (?a, ?z)"
    by (simp add: compatibleStrings_def string_def truthy_def)
  have wf: "language ?a = None \<or> datatype' ?a = None" by simp
  have occ: "\<exists>pre suf. lexical ?a = pre @ lexical ?b @ suf"
    by (rule exI[of _ "''a''"], rule exI[of _ "''c''"]) simp
  have nocc: "\<not> (\<exists>pre suf. lexical ?a = pre @ lexical ?z @ suf)"
  proof
    assume "\<exists>pre suf. lexical ?a = pre @ lexical ?z @ suf"
    then obtain pre suf where "''abc'' = pre @ ''z'' @ suf" by auto
    then have "CHR ''z'' \<in> set ''abc''" by (metis in_set_conv_decomp append_Cons append_Nil)
    then show False by simp
  qed
  from STRBEFORE_STRAFTER[OF cb wf] occ
  have 1: "\<exists>before after.
         Builtin_STRBEFORE (Lit ?a) (Lit ?b)
           = Inr \<lparr>lexical = before, datatype' = None, language = Some ''en''\<rparr>
       \<and> Builtin_STRAFTER (Lit ?a) (Lit ?b)
           = Inr \<lparr>lexical = after, datatype' = None, language = Some ''en''\<rparr>
       \<and> ''abc'' = before @ ''b'' @ after"
    by simp blast
  from STRBEFORE_STRAFTER[OF cz wf] nocc
  have 2: "Builtin_STRBEFORE (Lit ?a) (Lit ?z) = Inr \<lparr>lexical = [], datatype' = None, language = None\<rparr>"
    by simp
  from cb 1 2 show ?thesis by blast
qed

subsection \<open>C6: ROUND of a large integer\<close>

text \<open>
  C6.  The claim makes \<^verbatim>\<open>Builtin_ROUND\<close> round every operand that \<^verbatim>\<open>numeric\<close>
  accepts.  The code rounds with \<^verbatim>\<open>Decimal(v).quantize(1, ROUND_HALF_UP)\<close>, which
  raises \<^verbatim>\<open>InvalidOperation\<close> on a result of more than 28 digits: for the literal
  \<^verbatim>\<open>"10000000000000000000000000000"^^xsd:integer\<close>, of Python value \<open>10^28\<close>,
  \<^verbatim>\<open>Builtin_ROUND\<close> raises, where \<^verbatim>\<open>Builtin_CEIL\<close> and \<^verbatim>\<open>Builtin_FLOOR\<close> return
  the literal of \<open>10^28\<close>.
\<close>

theorem ROUND_raises_where_CEIL_and_FLOOR_return:
  "Builtin_ROUND (tm\<lparr>toPython := \<lambda>_. PyInt (10 ^ 28)\<rparr>) dm
       (Lit \<lparr>lexical = ''10000000000000000000000000000'',
             datatype' = Some (XSD ''integer''), language = None\<rparr>)
     = Inl InvalidOperation
   \<and> Builtin_CEIL (tm\<lparr>toPython := \<lambda>_. PyInt (10 ^ 28)\<rparr>)
       (Lit \<lparr>lexical = ''10000000000000000000000000000'',
             datatype' = Some (XSD ''integer''), language = None\<rparr>)
     = Inr (Literal_int (10 ^ 28) (Some (XSD ''integer'')))
   \<and> Builtin_FLOOR (tm\<lparr>toPython := \<lambda>_. PyInt (10 ^ 28)\<rparr>)
       (Lit \<lparr>lexical = ''10000000000000000000000000000'',
             datatype' = Some (XSD ''integer''), language = None\<rparr>)
     = Inr (Literal_int (10 ^ 28) (Some (XSD ''integer'')))"
  by (simp add: Builtin_ROUND_def Builtin_CEIL_def Builtin_FLOOR_def numeric_def
      numeric_datatypes_def round_half_up_def val_datatype_def)

subsection \<open>C7: the datatype of the results of ABS, CEIL, FLOOR and ROUND\<close>

text \<open>
  \<^verbatim>\<open>Builtin_CEIL\<close>, \<^verbatim>\<open>Builtin_FLOOR\<close> and \<^verbatim>\<open>Builtin_ROUND\<close> build their result
  with \<^verbatim>\<open>datatype=l_.datatype\<close>: a result carries the operand's datatype.
\<close>

lemma CEIL_FLOOR_ROUND_datatype:
  "(Builtin_CEIL tm arg = Inr r \<longrightarrow> datatype' r = val_datatype arg)
   \<and> (Builtin_FLOOR tm arg = Inr r \<longrightarrow> datatype' r = val_datatype arg)
   \<and> (Builtin_ROUND tm dm arg = Inr r \<longrightarrow> datatype' r = val_datatype arg)"
  by (auto simp: Builtin_CEIL_def Builtin_FLOOR_def Builtin_ROUND_def numeric_def val_datatype_def
      Literal_int_def split: sum.splits val.splits option.splits if_splits)

text \<open>
  C7.  \<^verbatim>\<open>Builtin_ABS\<close> builds \<^verbatim>\<open>Literal(abs(numeric(expr.arg)))\<close> and passes no
  datatype: for \<^verbatim>\<open>"-5"^^xsd:byte\<close> and for \<^verbatim>\<open>"-5"^^xsd:long\<close>, both of Python
  value -5, the result is the same \<^verbatim>\<open>Literal(5)\<close>, whose datatype the constructor
  infers from the \<^verbatim>\<open>int\<close>; it cannot be the operand's datatype in both cases.
\<close>

theorem ABS_drops_the_datatype:
  "Builtin_ABS (tm\<lparr>toPython := \<lambda>_. PyInt (- 5)\<rparr>) dm
       (Lit \<lparr>lexical = ''-5'', datatype' = Some (XSD ''byte''), language = None\<rparr>)
     = Inr (Literal_of tm (PyInt 5) None)
   \<and> Builtin_ABS (tm\<lparr>toPython := \<lambda>_. PyInt (- 5)\<rparr>) dm
       (Lit \<lparr>lexical = ''-5'', datatype' = Some (XSD ''long''), language = None\<rparr>)
     = Inr (Literal_of tm (PyInt 5) None)"
  by (simp add: Builtin_ABS_def numeric_def numeric_datatypes_def)

subsection \<open>C4: a date or a time with a general duration\<close>

text \<open>
  C4.  The claim makes a date compatible with a general \<^verbatim>\<open>xsd:duration\<close> that has no
  time component, and a time with one that has no date component.
  \<^verbatim>\<open>isCompatibleDateTimeDatatype\<close> compares the duration's datatype with
  \<^verbatim>\<open>XSD.dayTimeDuration\<close> and with \<^verbatim>\<open>XSD.Duration\<close>, which is not the IRI
  \<^verbatim>\<open>XSD.duration\<close> of the datatype; so for \<^verbatim>\<open>xsd:duration\<close> no branch returns,
  the result is \<^verbatim>\<open>None\<close>, and \<^verbatim>\<open>calculateFinalDateTime\<close> raises, whatever the
  operands and the operation are.
\<close>

theorem date_or_time_with_duration_raises:
  "calculateFinalDateTime dm obj1 (Some (XSD ''date'')) obj2 (Some (XSD ''duration'')) operation
     = Inl (SPARQLError ''Incompatible Data types to DateTime Operations'')
   \<and> calculateFinalDateTime dm obj1 (Some (XSD ''time'')) obj2 (Some (XSD ''duration'')) operation
     = Inl (SPARQLError ''Incompatible Data types to DateTime Operations'')"
  by (simp add: calculateFinalDateTime_def isCompatibleDateTimeDatatype_def
      compatible_date_def compatible_time_def XSD_def)

subsection \<open>C5: the flags of REPLACE\<close>

text \<open>
  C5.  The claim gives the flags of \<^verbatim>\<open>REPLACE\<close> the meaning they have in
  \<^verbatim>\<open>REGEX\<close>.  The code passes \<open>cFlag\<close> to \<^verbatim>\<open>re.sub\<close> as its fourth positional
  argument, which is \<open>count\<close>: with the flags \<^verbatim>\<open>"i"\<close>, \<^verbatim>\<open>re.sub\<close> gets
  \<open>count = 2\<close> and \<open>flags = 0\<close>, so the match stays case-sensitive and at most two
  occurrences are replaced.
\<close>

theorem REPLACE_flags_are_the_count:
  "Builtin_REPLACE (tm\<lparr>nonzero := \<lambda>_. True\<rparr>) re_sub
       (Lit \<lparr>lexical = t, datatype' = None, language = None\<rparr>)
       (Lit \<lparr>lexical = p, datatype' = None, language = None\<rparr>)
       (Lit \<lparr>lexical = r, datatype' = None, language = None\<rparr>)
       (Lit \<lparr>lexical = ''i'', datatype' = None, language = None\<rparr>)
     = (case re_sub dollar_pattern backslash_template r 0 0 of
          Inl e \<Rightarrow> Inl e
        | Inr compat_r \<Rightarrow>
            (case re_sub p compat_r t 2 0 of
               Inl e \<Rightarrow> Inl e
             | Inr s \<Rightarrow> Inr \<lparr>lexical = s, datatype' = None, language = None\<rparr>))"
  by (simp add: Builtin_REPLACE_def string_def truthy_def cFlag_of_def reduce_or_def
      flagMap_get_def Literal_str_def split: sum.splits)

subsection \<open>C8: the simplifier\<close>

lemma expression_tree_slot:
  "list_all (\<lambda>(k, v). expression_tree v) kvs \<Longrightarrow> map_of kvs k = Some v \<Longrightarrow> expression_tree v"
  by (auto simp: list_all_iff dest!: map_of_SomeD)

lemma getattr_map:
  "getattr (map (\<lambda>(k, v). (k, f v)) kvs) k =
     (case map_of kvs k of None \<Rightarrow> Atom PyNone | Some v \<Rightarrow> f v)"
  by (induction kvs) (auto simp: getattr_def)

lemma simplify_not_None: "expression_tree t \<Longrightarrow> simplify t \<noteq> Atom PyNone"
proof (induction t rule: simplify.induct)
  case (5 name kvs)
  show ?case
  proof (cases "endswith name ''Expression'' \<and> getattr kvs ''other'' = Atom PyNone")
    case True
    with "5.prems" obtain v where v: "map_of kvs ''expr'' = Some v" by auto
    with "5.prems" have "expression_tree v" by (auto intro: expression_tree_slot)
    moreover from v have "getattr kvs ''expr'' = v" by (simp add: getattr_def)
    ultimately show ?thesis using True "5.IH"(1) by simp
  next
    case False
    have "simplify (CompValue name kvs) = CompValue name (map (\<lambda>(k, v). (k, simplify v)) kvs)"
      by (subst simplify.simps) (use False in auto)
    then show ?thesis by simp
  qed
qed auto

lemma simplify_idem: "expression_tree t \<Longrightarrow> simplify (simplify t) = simplify t"
proof (induction t rule: simplify.induct)
  case (5 name kvs)
  show ?case
  proof (cases "endswith name ''Expression'' \<and> getattr kvs ''other'' = Atom PyNone")
    case True
    with "5.prems" obtain v where v: "map_of kvs ''expr'' = Some v" by auto
    with "5.prems" have "expression_tree v" by (auto intro: expression_tree_slot)
    moreover from v have "getattr kvs ''expr'' = v" by (simp add: getattr_def)
    ultimately show ?thesis using True "5.IH"(1) by simp
  next
    case False
    have ih: "\<And>k v. (k, v) \<in> set kvs \<Longrightarrow> simplify (simplify v) = simplify v"
      using "5.IH"(2)[OF False] "5.prems" by (auto simp: list_all_iff)
    let ?kvs' = "map (\<lambda>(k, v). (k, simplify v)) kvs"
    have s1: "simplify (CompValue name kvs) = CompValue name ?kvs'"
      by (subst simplify.simps) (use False in auto)
    have m: "map (\<lambda>(k, v). (k, simplify v)) ?kvs' = ?kvs'"
      using ih by (auto simp: o_def split_def)
    have keep: "\<not> (endswith name ''Expression'' \<and> getattr ?kvs' ''other'' = Atom PyNone)"
    proof
      assume a: "endswith name ''Expression'' \<and> getattr ?kvs' ''other'' = Atom PyNone"
      with False have ne: "getattr kvs ''other'' \<noteq> Atom PyNone" by simp
      then obtain v where v: "map_of kvs ''other'' = Some v"
        by (auto simp: getattr_def split: option.splits)
      from a v have "simplify v = Atom PyNone" by (simp add: getattr_map)
      moreover from "5.prems" v have "expression_tree v" by (auto intro: expression_tree_slot)
      ultimately show False using simplify_not_None by blast
    qed
    have "simplify (CompValue name ?kvs') = CompValue name (map (\<lambda>(k, v). (k, simplify v)) ?kvs')"
      by (subst simplify.simps) (use keep in auto)
    with m show ?thesis unfolding s1 by simp
  qed
qed (auto simp: list_all_iff)

text \<open>
  C8.  \<^verbatim>\<open>simplify\<close> is idempotent on every expression tree.  It recurses into every
  slot of every node and into every element of every sequence: a node whose name ends
  in \<^verbatim>\<open>Expression\<close> and whose \<^verbatim>\<open>other\<close> is absent is replaced by the
  simplification of its \<^verbatim>\<open>expr\<close>; every other node keeps its name and has every
  slot simplified; a list, and a \<^verbatim>\<open>ParseResults\<close> that does not hold exactly one
  element, becomes the list of the simplified elements; a \<^verbatim>\<open>ParseResults\<close> of one
  element becomes the simplification of that element; anything else is returned as
  it is.
\<close>

theorem simplify_idempotent:
  assumes "expression_tree t"
  shows "simplify (simplify t) = simplify t
       \<and> (\<forall>name kvs. endswith name ''Expression'' \<and> getattr kvs ''other'' = Atom PyNone \<longrightarrow>
             simplify (CompValue name kvs) = simplify (getattr kvs ''expr''))
       \<and> (\<forall>name kvs. \<not> (endswith name ''Expression'' \<and> getattr kvs ''other'' = Atom PyNone) \<longrightarrow>
             simplify (CompValue name kvs) = CompValue name (map (\<lambda>(k, v). (k, simplify v)) kvs))
       \<and> (\<forall>xs. simplify (PyList xs) = PyList (map simplify xs))
       \<and> (\<forall>x. simplify (ParseResults [x]) = simplify x)
       \<and> (\<forall>xs. length xs \<noteq> 1 \<longrightarrow> simplify (ParseResults xs) = PyList (map simplify xs))
       \<and> (\<forall>a. simplify (Atom a) = Atom a)"
proof -
  have seq: "\<And>xs. length xs \<noteq> 1 \<Longrightarrow> simplify (ParseResults xs) = PyList (map simplify xs)"
  proof -
    fix xs :: "tree list" assume "length xs \<noteq> 1"
    then show "simplify (ParseResults xs) = PyList (map simplify xs)"
    proof (cases xs)
      case Nil
      then show ?thesis by simp
    next
      case (Cons y ys)
      with \<open>length xs \<noteq> 1\<close> obtain z zs where "ys = z # zs" by (cases ys) auto
      with Cons show ?thesis by simp
    qed
  qed
  have wrap: "\<And>name kvs. endswith name ''Expression'' \<and> getattr kvs ''other'' = Atom PyNone \<Longrightarrow>
             simplify (CompValue name kvs) = simplify (getattr kvs ''expr'')"
    by simp
  have slots: "\<And>name kvs. \<not> (endswith name ''Expression'' \<and> getattr kvs ''other'' = Atom PyNone) \<Longrightarrow>
             simplify (CompValue name kvs) = CompValue name (map (\<lambda>(k, v). (k, simplify v)) kvs)"
    by (subst simplify.simps) auto
  from simplify_idem[OF assms] seq wrap slots show ?thesis
    by (intro conjI allI impI) simp_all
qed

text \<open>
  The theorem at a conjunction whose operands are wrappers with no continuation, the
  second one inside a list: the wrappers are replaced by their inner terms, and a
  second pass changes nothing.
\<close>

theorem simplify_idempotent_witness:
  "expression_tree (CompValue ''ConditionalAndExpression''
      [(''expr'', CompValue ''RelationalExpression'' [(''expr'', Atom (URIRef ''a''))]),
       (''other'', PyList [CompValue ''AdditiveExpression'' [(''expr'', Atom (URIRef ''b''))]])])
   \<and> simplify (CompValue ''ConditionalAndExpression''
      [(''expr'', CompValue ''RelationalExpression'' [(''expr'', Atom (URIRef ''a''))]),
       (''other'', PyList [CompValue ''AdditiveExpression'' [(''expr'', Atom (URIRef ''b''))]])])
       = CompValue ''ConditionalAndExpression''
           [(''expr'', Atom (URIRef ''a'')), (''other'', PyList [Atom (URIRef ''b'')])]
   \<and> simplify (simplify (CompValue ''ConditionalAndExpression''
      [(''expr'', CompValue ''RelationalExpression'' [(''expr'', Atom (URIRef ''a''))]),
       (''other'', PyList [CompValue ''AdditiveExpression'' [(''expr'', Atom (URIRef ''b''))]])])) = simplify (CompValue ''ConditionalAndExpression''
      [(''expr'', CompValue ''RelationalExpression'' [(''expr'', Atom (URIRef ''a''))]),
       (''other'', PyList [CompValue ''AdditiveExpression'' [(''expr'', Atom (URIRef ''b''))]])])"
proof -
  have k: "expression_tree (CompValue ''ConditionalAndExpression''
      [(''expr'', CompValue ''RelationalExpression'' [(''expr'', Atom (URIRef ''a''))]),
       (''other'', PyList [CompValue ''AdditiveExpression'' [(''expr'', Atom (URIRef ''b''))]])])"
    by (simp add: endswith_def)
  have s: "simplify (CompValue ''ConditionalAndExpression''
      [(''expr'', CompValue ''RelationalExpression'' [(''expr'', Atom (URIRef ''a''))]),
       (''other'', PyList [CompValue ''AdditiveExpression'' [(''expr'', Atom (URIRef ''b''))]])])
       = CompValue ''ConditionalAndExpression''
           [(''expr'', Atom (URIRef ''a'')), (''other'', PyList [Atom (URIRef ''b'')])]"
    by (simp add: endswith_def getattr_def)
  from simplify_idempotent[OF k] have "simplify (simplify (CompValue ''ConditionalAndExpression''
      [(''expr'', CompValue ''RelationalExpression'' [(''expr'', Atom (URIRef ''a''))]),
       (''other'', PyList [CompValue ''AdditiveExpression'' [(''expr'', Atom (URIRef ''b''))]])])) = simplify (CompValue ''ConditionalAndExpression''
      [(''expr'', CompValue ''RelationalExpression'' [(''expr'', Atom (URIRef ''a''))]),
       (''other'', PyList [CompValue ''AdditiveExpression'' [(''expr'', Atom (URIRef ''b''))]])])" by blast
  with k s show ?thesis by blast
qed

text \<open>
  The hypothesis is used: a tree with a \<^verbatim>\<open>None\<close> inside a sequence is not an
  expression tree, and on the one below a second pass changes the result of the first.
\<close>

lemma simplify_None_in_a_sequence:
  "\<not> expression_tree (CompValue ''AdditiveExpression''
      [(''expr'', Atom (URIRef ''a'')), (''other'', ParseResults [Atom PyNone])])
   \<and> simplify (CompValue ''AdditiveExpression''
      [(''expr'', Atom (URIRef ''a'')), (''other'', ParseResults [Atom PyNone])]) = CompValue ''AdditiveExpression''
       [(''expr'', Atom (URIRef ''a'')), (''other'', Atom PyNone)]
   \<and> simplify (simplify (CompValue ''AdditiveExpression''
      [(''expr'', Atom (URIRef ''a'')), (''other'', ParseResults [Atom PyNone])])) = Atom (URIRef ''a'')"
  by (simp add: endswith_def getattr_def)

subsection \<open>Further properties of the code\<close>

lemma all_EBV_append:
  assumes "\<forall>y\<in>set pre. \<exists>v. EBV tm y = Inr v \<and> py_bool tm v"
  shows "all_EBV tm (pre @ xs) = all_EBV tm xs"
  using assms by (induction pre) auto

text \<open>
  \<^verbatim>\<open>ConditionalAndExpression\<close> as coded: with no \<^verbatim>\<open>other\<close> it returns its operand;
  it is true when the effective boolean value of every operand is true; it is false
  when an operand is false and every operand before it is true; and it raises the
  error of an operand when every operand before it is true.
\<close>

theorem AND_as_coded:
  "ConditionalAndExpression tm expr' None = Inr expr'
   \<and> ((\<forall>y\<in>set (expr' # os). \<exists>v. EBV tm y = Inr v \<and> py_bool tm v) \<longrightarrow>
        ConditionalAndExpression tm expr' (Some os) = Inr (Lit (Literal_bool True)))
   \<and> (\<forall>pre x post v.
         expr' # os = pre @ x # post
         \<and> (\<forall>y\<in>set pre. \<exists>v. EBV tm y = Inr v \<and> py_bool tm v)
         \<and> EBV tm x = Inr v \<and> \<not> py_bool tm v \<longrightarrow>
        ConditionalAndExpression tm expr' (Some os) = Inr (Lit (Literal_bool False)))
   \<and> (\<forall>pre x post e.
         expr' # os = pre @ x # post
         \<and> (\<forall>y\<in>set pre. \<exists>v. EBV tm y = Inr v \<and> py_bool tm v)
         \<and> EBV tm x = Inl e \<longrightarrow>
        ConditionalAndExpression tm expr' (Some os) = Inl e)"
proof (intro conjI allI impI)
  show "ConditionalAndExpression tm expr' None = Inr expr'"
    by (simp add: ConditionalAndExpression_def)
next
  assume a: "\<forall>y\<in>set (expr' # os). \<exists>v. EBV tm y = Inr v \<and> py_bool tm v"
  from all_EBV_append[OF a, of "[]"]
  show "ConditionalAndExpression tm expr' (Some os) = Inr (Lit (Literal_bool True))"
    by (simp add: ConditionalAndExpression_def)
next
  fix pre x post v
  assume a: "expr' # os = pre @ x # post
         \<and> (\<forall>y\<in>set pre. \<exists>v. EBV tm y = Inr v \<and> py_bool tm v)
         \<and> EBV tm x = Inr v \<and> \<not> py_bool tm v"
  then have "all_EBV tm (expr' # os) = all_EBV tm (x # post)"
    using all_EBV_append[of pre tm "x # post"] by simp
  with a show "ConditionalAndExpression tm expr' (Some os) = Inr (Lit (Literal_bool False))"
    by (simp add: ConditionalAndExpression_def)
next
  fix pre x post e
  assume a: "expr' # os = pre @ x # post
         \<and> (\<forall>y\<in>set pre. \<exists>v. EBV tm y = Inr v \<and> py_bool tm v)
         \<and> EBV tm x = Inl e"
  then have "all_EBV tm (expr' # os) = all_EBV tm (x # post)"
    using all_EBV_append[of pre tm "x # post"] by simp
  with a show "ConditionalAndExpression tm expr' (Some os) = Inl e"
    by (simp add: ConditionalAndExpression_def)
qed

text \<open>
  The theorem at \<^verbatim>\<open>"x" && <a> && false\<close>, which raises the type error of the IRI,
  and at \<^verbatim>\<open>"x" && false && <a>\<close>, which is false.
\<close>

theorem AND_as_coded_witness:
  "ConditionalAndExpression (module_with_value (PyBool True))
       (Lit \<lparr>lexical = ''x'', datatype' = None, language = None\<rparr>)
       (Some [URIRef ''http://example.org/a'', Lit (Literal_bool False)])
     = Inl (SPARQLTypeError ''Only literals have Boolean values! %r'')
   \<and> ConditionalAndExpression (module_with_value (PyBool False))
       (Lit \<lparr>lexical = ''x'', datatype' = None, language = None\<rparr>)
       (Some [Lit (Literal_bool False), URIRef ''http://example.org/a''])
     = Inr (Lit (Literal_bool False))"
proof -
  let ?x = "Lit \<lparr>lexical = ''x'', datatype' = None, language = None\<rparr>"
  let ?a = "URIRef ''http://example.org/a''"
  let ?f = "Lit (Literal_bool False)"
  have 1: "ConditionalAndExpression (module_with_value (PyBool True)) ?x (Some [?a, ?f])
             = Inl (SPARQLTypeError ''Only literals have Boolean values! %r'')"
    using AND_as_coded [of "module_with_value (PyBool True)" ?x "[?a, ?f]",
        THEN conjunct2, THEN conjunct2, THEN conjunct2, rule_format,
        of "[?x]" ?a "[?f]" "SPARQLTypeError ''Only literals have Boolean values! %r''"]
    by (simp add: EBV_def)
  have 2: "ConditionalAndExpression (module_with_value (PyBool False)) ?x (Some [?f, ?a])
             = Inr (Lit (Literal_bool False))"
    using AND_as_coded [of "module_with_value (PyBool False)" ?x "[?f, ?a]",
        THEN conjunct2, THEN conjunct2, THEN conjunct1, rule_format,
        of "[?x]" ?f "[?a]" "PyBool False"]
    by (simp add: EBV_def Literal_bool_def module_with_value_def XSD_def)
  from 1 2 show ?thesis by blast
qed

text \<open>
  \<^verbatim>\<open>isCompatibleDateTimeDatatype\<close> as coded: a date is compatible with a
  \<^verbatim>\<open>yearMonthDuration\<close>, and with a \<^verbatim>\<open>dayTimeDuration\<close> when \<^verbatim>\<open>str\<close> of the
  duration object has no \<^verbatim>\<open>T\<close>; a time is not compatible with a
  \<^verbatim>\<open>yearMonthDuration\<close>, and is compatible with a \<^verbatim>\<open>dayTimeDuration\<close> when the
  second character of \<^verbatim>\<open>str\<close> of the duration object is \<^verbatim>\<open>T\<close>; a dateTime is
  compatible with everything; for a date or a time with an \<^verbatim>\<open>xsd:duration\<close> the
  function returns \<^verbatim>\<open>None\<close>.
\<close>

theorem compatibility_as_coded:
  "isCompatibleDateTimeDatatype dm obj1 (Some (XSD ''date'')) obj2 (Some (XSD ''yearMonthDuration''))
     = Inr (Some True)
   \<and> isCompatibleDateTimeDatatype dm obj1 (Some (XSD ''date'')) obj2 (Some (XSD ''dayTimeDuration''))
     = Inr (Some (CHR ''T'' \<notin> set (str_obj dm obj2)))
   \<and> isCompatibleDateTimeDatatype dm obj1 (Some (XSD ''time'')) obj2 (Some (XSD ''yearMonthDuration''))
     = Inr (Some False)
   \<and> isCompatibleDateTimeDatatype dm obj1 (Some (XSD ''time'')) obj2 (Some (XSD ''dayTimeDuration''))
     = (case str_obj dm obj2 of
          _ # c # _ \<Rightarrow> Inr (Some (c = CHR ''T''))
        | _ \<Rightarrow> Inl IndexError)
   \<and> isCompatibleDateTimeDatatype dm obj1 (Some (XSD ''dateTime'')) obj2 dt2 = Inr (Some True)
   \<and> isCompatibleDateTimeDatatype dm obj1 (Some (XSD ''date'')) obj2 (Some (XSD ''duration''))
     = Inr None
   \<and> isCompatibleDateTimeDatatype dm obj1 (Some (XSD ''time'')) obj2 (Some (XSD ''duration''))
     = Inr None"
  by (auto simp: isCompatibleDateTimeDatatype_def compatible_date_def compatible_time_def XSD_def
      split: list.splits)

text \<open>
  The lemma \<open>CEIL_FLOOR_ROUND_datatype\<close> at \<^verbatim>\<open>CEIL("5"^^xsd:byte)\<close>: the result is
  \<^verbatim>\<open>"5"^^xsd:byte\<close>.
\<close>

theorem CEIL_FLOOR_ROUND_datatype_witness:
  "Builtin_CEIL (module_with_value (PyInt 5))
       (Lit \<lparr>lexical = ''5'', datatype' = Some (XSD ''byte''), language = None\<rparr>)
     = Inr (Literal_int 5 (Some (XSD ''byte'')))
   \<and> datatype' (Literal_int 5 (Some (XSD ''byte''))) = Some (XSD ''byte'')"
proof -
  let ?l = "Lit \<lparr>lexical = ''5'', datatype' = Some (XSD ''byte''), language = None\<rparr>"
  have c: "Builtin_CEIL (module_with_value (PyInt 5)) ?l = Inr (Literal_int 5 (Some (XSD ''byte'')))"
    by (simp add: Builtin_CEIL_def numeric_def numeric_datatypes_def module_with_value_def
        val_datatype_def)
  from CEIL_FLOOR_ROUND_datatype
         [of "module_with_value (PyInt 5)" ?l "Literal_int 5 (Some (XSD ''byte''))",
          THEN conjunct1, rule_format, OF c]
  have "datatype' (Literal_int 5 (Some (XSD ''byte''))) = Some (XSD ''byte'')"
    by (simp add: val_datatype_def)
  with c show ?thesis by blast
qed

lemma round_half_up_nearest:
  "\<bar>of_int (round_half_up q) - q\<bar> \<le> 1 / 2
   \<and> (\<bar>of_int (round_half_up q) - q\<bar> = 1 / 2 \<longrightarrow> \<bar>q\<bar> < \<bar>of_int (round_half_up q)\<bar>)"
proof (cases "0 \<le> q")
  case True
  define x :: rat where "x = of_int \<lfloor>q + 1 / 2\<rfloor>"
  have r: "of_int (round_half_up q) = x" using True by (simp add: round_half_up_def x_def)
  have 1: "x \<le> q + 1 / 2" unfolding x_def by (rule of_int_floor_le)
  have 2: "q + 1 / 2 < x + 1" unfolding x_def by linarith
  have a: "\<bar>x - q\<bar> \<le> 1 / 2" using 1 2 by arith
  have b: "\<bar>x - q\<bar> = 1 / 2 \<longrightarrow> \<bar>q\<bar> < \<bar>x\<bar>" using True 1 2 by arith
  from a b show ?thesis unfolding r by blast
next
  case False
  define x :: rat where "x = of_int \<lfloor>- q + 1 / 2\<rfloor>"
  have r: "of_int (round_half_up q) = - x" using False by (simp add: round_half_up_def x_def)
  have 1: "x \<le> - q + 1 / 2" unfolding x_def by (rule of_int_floor_le)
  have 2: "- q + 1 / 2 < x + 1" unfolding x_def by linarith
  have a: "\<bar>- x - q\<bar> \<le> 1 / 2" using 1 2 by arith
  have b: "\<bar>- x - q\<bar> = 1 / 2 \<longrightarrow> \<bar>q\<bar> < \<bar>- x\<bar>" using False 1 2 by arith
  from a b show ?thesis unfolding r by blast
qed

lemma round_half_up_bound:
  assumes "\<bar>q\<bar> < 10 ^ 28 - 1 / 2"
  shows "\<bar>round_half_up q\<bar> < 10 ^ 28"
proof (cases "0 \<le> q")
  case True
  then have "q + 1 / 2 < of_int (10 ^ 28)" using assms by simp
  then have "\<lfloor>q + 1 / 2\<rfloor> < 10 ^ 28" by (simp only: floor_less_iff)
  moreover have "0 \<le> \<lfloor>q + 1 / 2\<rfloor>" using True by simp
  ultimately show ?thesis using True by (simp add: round_half_up_def)
next
  case False
  then have "- q + 1 / 2 < of_int (10 ^ 28)" using assms by simp
  then have "\<lfloor>- q + 1 / 2\<rfloor> < 10 ^ 28" by (simp only: floor_less_iff)
  moreover have "0 \<le> \<lfloor>- q + 1 / 2\<rfloor>" using False by simp
  ultimately show ?thesis using False by (simp add: round_half_up_def)
qed

lemma Decimal_finite:
  "finite_value v = Some q \<Longrightarrow> Decimal dm v = Inr (DFin q)"
  by (induction v rule: finite_value.induct) auto

lemma int_of_Decimal_int: "int_of_Decimal (DFin (of_int n)) = Inr n"
  by simp

text \<open>
  \<^verbatim>\<open>Builtin_ROUND\<close> where it returns: for a literal that \<^verbatim>\<open>numeric\<close> accepts and
  whose Python value is a finite number \<open>q\<close> of magnitude below \<open>10^28 - 1/2\<close>, the
  result is the literal of an integer \<open>n\<close> with the operand's datatype, where \<open>n\<close> is
  nearest to \<open>q\<close> and, when \<open>q\<close> lies halfway between two integers, is the one of
  larger magnitude.
\<close>

theorem ROUND_half_away_from_zero:
  assumes "numeric tm (Lit l) = Inr v"
      and "finite_value v = Some q"
      and "\<bar>q\<bar> < 10 ^ 28 - 1 / 2"
  shows "\<exists>n. Builtin_ROUND tm dm (Lit l)
               = Inr \<lparr>lexical = str_int n, datatype' = datatype' l, language = None\<rparr>
           \<and> \<bar>of_int n - q\<bar> \<le> 1 / 2
           \<and> (\<bar>of_int n - q\<bar> = 1 / 2 \<longrightarrow> \<bar>q\<bar> < \<bar>of_int n\<bar>)"
proof -
  let ?n = "round_half_up q"
  from assms(1) obtain dt where dt: "datatype' l = Some dt"
    by (auto simp: numeric_def split: option.splits)
  have b: "\<not> 10 ^ 28 \<le> \<bar>?n\<bar>" using round_half_up_bound[OF assms(3)] by simp
  have "Builtin_ROUND tm dm (Lit l) = Inr (Literal_int ?n (datatype' l))"
    using assms(1) Decimal_finite[OF assms(2), of dm] b
    by (simp add: Builtin_ROUND_def val_datatype_def)
  then have "Builtin_ROUND tm dm (Lit l)
               = Inr \<lparr>lexical = str_int ?n, datatype' = datatype' l, language = None\<rparr>"
    using dt by (simp add: Literal_int_def)
  with round_half_up_nearest[of q] show ?thesis by blast
qed

text \<open>The theorem at \<^verbatim>\<open>"2.5"^^xsd:double\<close>, whose Python value is the float 2.5.\<close>

theorem ROUND_half_away_from_zero_witness:
  "numeric (module_with_value (PyFloat (FFin (5 / 2)))) (Lit \<lparr>lexical = ''2.5'', datatype' = Some (XSD ''double''), language = None\<rparr>) = Inr (PyFloat (FFin (5 / 2)))
   \<and> finite_value (PyFloat (FFin (5 / 2))) = Some (5 / 2)
   \<and> \<bar>5 / 2 :: rat\<bar> < 10 ^ 28 - 1 / 2
   \<and> (\<exists>n. Builtin_ROUND (module_with_value (PyFloat (FFin (5 / 2)))) plain_decimal_module (Lit \<lparr>lexical = ''2.5'', datatype' = Some (XSD ''double''), language = None\<rparr>)
             = Inr \<lparr>lexical = str_int n, datatype' = Some (XSD ''double''), language = None\<rparr>
          \<and> \<bar>of_int n - (5 / 2 :: rat)\<bar> \<le> 1 / 2)"
proof -
  have 1: "numeric (module_with_value (PyFloat (FFin (5 / 2)))) (Lit \<lparr>lexical = ''2.5'', datatype' = Some (XSD ''double''), language = None\<rparr>)
             = Inr (PyFloat (FFin (5 / 2)))"
    by (simp add: numeric_def numeric_datatypes_def module_with_value_def)
  have 2: "finite_value (PyFloat (FFin (5 / 2))) = Some (5 / 2)" by simp
  have 3: "\<bar>5 / 2 :: rat\<bar> < 10 ^ 28 - 1 / 2" by simp
  from ROUND_half_away_from_zero [OF 1 2 3, of plain_decimal_module]
  have "\<exists>n. Builtin_ROUND (module_with_value (PyFloat (FFin (5 / 2)))) plain_decimal_module (Lit \<lparr>lexical = ''2.5'', datatype' = Some (XSD ''double''), language = None\<rparr>)
             = Inr \<lparr>lexical = str_int n, datatype' = Some (XSD ''double''), language = None\<rparr>
          \<and> \<bar>of_int n - (5 / 2 :: rat)\<bar> \<le> 1 / 2"
    by simp blast
  with 1 2 3 show ?thesis by blast
qed

text \<open>The examples of the spec: ROUND(2.5) = 3, ROUND(-2.5) = -3, ROUND(2.4) = 2.\<close>

lemma ROUND_examples:
  "Builtin_ROUND (module_with_value (PyFloat (FFin (5 / 2)))) plain_decimal_module (Lit \<lparr>lexical = ''2.5'', datatype' = Some (XSD ''double''), language = None\<rparr>)
     = Inr \<lparr>lexical = ''3'', datatype' = Some (XSD ''double''), language = None\<rparr>"
  "Builtin_ROUND (module_with_value (PyFloat (FFin (- 5 / 2)))) plain_decimal_module
       (Lit \<lparr>lexical = ''-2.5'', datatype' = Some (XSD ''double''), language = None\<rparr>)
     = Inr \<lparr>lexical = ''-3'', datatype' = Some (XSD ''double''), language = None\<rparr>"
  "Builtin_ROUND (module_with_value (PyDecimal (DFin (12 / 5)))) plain_decimal_module
       (Lit \<lparr>lexical = ''2.4'', datatype' = Some (XSD ''decimal''), language = None\<rparr>)
     = Inr \<lparr>lexical = ''2'', datatype' = Some (XSD ''decimal''), language = None\<rparr>"
  by code_simp+

text \<open>
  \<^verbatim>\<open>numeric\<close> accepts the literal \<^verbatim>\<open>"NaN"^^xsd:double\<close>, and \<^verbatim>\<open>Builtin_ROUND\<close>
  raises on it (\<^verbatim>\<open>int\<close> of the \<^verbatim>\<open>Decimal\<close> NaN).
\<close>

lemma ROUND_NaN_raises:
  "numeric (module_with_value (PyFloat FNaN))
       (Lit \<lparr>lexical = ''NaN'', datatype' = Some (XSD ''double''), language = None\<rparr>)
     = Inr (PyFloat FNaN)
   \<and> Builtin_ROUND (module_with_value (PyFloat FNaN)) plain_decimal_module
       (Lit \<lparr>lexical = ''NaN'', datatype' = Some (XSD ''double''), language = None\<rparr>)
     = Inl (ValueError ''cannot convert NaN to integer'')"
  by (simp add: Builtin_ROUND_def numeric_def numeric_datatypes_def module_with_value_def)

end
